theory Spec2Isabelle
  imports Complex_Main
begin

section \<open>Modelling conventions\<close>

text \<open>
  The dashboard stores every measurement as a 64-bit float. A finite float is idealised
  as a real number: arithmetic is exact and never overflows. Python dictionaries with a
  fixed set of keys are records; the field prefixes \<open>cd_\<close>, \<open>ar_\<close>, \<open>dp_\<close> and
  \<open>file_\<close> stand for the dictionaries \<^verbatim>\<open>color_diffs\<close>, the analysis result, a
  history data point and the persisted \<^verbatim>\<open>history_dict\<close>. Every reading of
  \<^verbatim>\<open>time.time()\<close> is an argument of the operation that reads the clock.
\<close>

section \<open>Configuration constants (glob\_basler\_cmd\_delta\_2v.py)\<close>

type_synonym lab = "real \<times> real \<times> real"

definition REFERENCE_LAB :: lab where
  "REFERENCE_LAB = (50, 0, 0)"

definition DEFAULT_SAMPLE_SIZE_CM :: real where
  "DEFAULT_SAMPLE_SIZE_CM = 1"

definition MIN_SAMPLE_SIZE_CM :: real where
  "MIN_SAMPLE_SIZE_CM = 0.1"

definition MAX_SAMPLE_SIZE_CM :: real where
  "MAX_SAMPLE_SIZE_CM = 5"


definition HISTORY_SIZE :: nat where
  "HISTORY_SIZE = 1000"

definition QUALITY_GRADE_EXCELLENT :: real where
  "QUALITY_GRADE_EXCELLENT = 1"

definition QUALITY_GRADE_GOOD :: real where
  "QUALITY_GRADE_GOOD = 2"

definition QUALITY_GRADE_ACCEPTABLE :: real where
  "QUALITY_GRADE_ACCEPTABLE = 3"

definition QUALITY_GRADE_DEFECTIVE :: real where
  "QUALITY_GRADE_DEFECTIVE = 5"

definition WARNING_THRESHOLD_DE :: real where
  "WARNING_THRESHOLD_DE = 3"

definition CRITICAL_THRESHOLD_DE :: real where
  "CRITICAL_THRESHOLD_DE = 5"

definition HISTORY_AUTO_SAVE_INTERVAL :: nat where
  "HISTORY_AUTO_SAVE_INTERVAL = 10"

definition VERSION :: string where
  "VERSION = ''1.0.0''"

definition DE_METHOD_CIE76 :: string where
  "DE_METHOD_CIE76 = ''CIE76''"


definition DEFAULT_DE_METHOD :: string where
  "DEFAULT_DE_METHOD = DE_METHOD_CIE76"




subsection \<open>Quality grades\<close>

text \<open>\<^verbatim>\<open>get_quality_grade\<close>: an if/elif chain over the absolute value.\<close>

definition get_quality_grade :: "real \<Rightarrow> string" where
  "get_quality_grade de_value =
     (let abs_de = \<bar>de_value\<bar> in
      if abs_de \<le> QUALITY_GRADE_EXCELLENT then ''excellent''
      else if abs_de \<le> QUALITY_GRADE_GOOD then ''good''
      else if abs_de \<le> QUALITY_GRADE_ACCEPTABLE then ''acceptable''
      else if abs_de \<le> QUALITY_GRADE_DEFECTIVE then ''defective''
      else ''out_of_range'')"

section \<open>Python and NumPy primitives\<close>








section \<open>AdvancedColorAnalyzer (lib\_basler\_cmd\_delta\_2v.py)\<close>

record analyzer =
  reference_lab :: lab
  calibration_lab :: "lab option"
  is_calibrated :: bool
  sample_size_cm :: real
  pixels_per_cm :: real
  de_method :: string

definition AdvancedColorAnalyzer_init :: analyzer where
  "AdvancedColorAnalyzer_init =
     \<lparr>reference_lab = REFERENCE_LAB, calibration_lab = None, is_calibrated = False,
      sample_size_cm = DEFAULT_SAMPLE_SIZE_CM, pixels_per_cm = 50,
      de_method = DEFAULT_DE_METHOD\<rparr>"

text \<open>\<^verbatim>\<open>set_sample_size\<close> returns its boolean result and the analyzer after the call.\<close>

definition set_sample_size :: "analyzer \<Rightarrow> real \<Rightarrow> bool \<times> analyzer" where
  "set_sample_size self size_cm =
     (if MIN_SAMPLE_SIZE_CM \<le> size_cm \<and> size_cm \<le> MAX_SAMPLE_SIZE_CM
      then (True, self\<lparr>sample_size_cm := size_cm\<rparr>)
      else (False, self))"

subsection \<open>CIE76\<close>


subsection \<open>CIEDE2000\<close>








subsection \<open>The difference bundle\<close>

record color_diffs =
  cd_dl :: real
  cd_da :: real
  cd_db :: real
  cd_dc :: real
  cd_dh :: real
  cd_de76 :: real
  cd_de2000 :: real
  cd_de :: real


subsection \<open>The sampling rectangle of analyze\_frame\<close>





section \<open>AdvancedDataManager (lib\_basler\_cmd\_delta\_2v.py)\<close>

record analysis_result =
  ar_timestamp :: real
  ar_color_diffs :: color_diffs
  ar_lab :: lab
  ar_rgb :: "real \<times> real \<times> real"
  ar_calibrated :: bool
  ar_sample_size_cm :: "real option"
  ar_de_method :: "string option"

record data_point =
  dp_time :: real
  dp_absolute_time :: real
  dp_de :: real
  dp_de76 :: real
  dp_de2000 :: real
  dp_dl :: real
  dp_da :: real
  dp_db :: real
  dp_dc :: real
  dp_dh :: real
  dp_lab :: lab
  dp_rgb :: "real \<times> real \<times> real"
  dp_calibrated :: bool
  dp_sample_size_cm :: real
  dp_de_method :: string

text \<open>
  The persisted dictionary. A file written by another version may lack the keys
  \<^verbatim>\<open>data\<close> and \<^verbatim>\<open>start_time\<close>, which \<^verbatim>\<open>load_history\<close> tests for, so both are optional.
\<close>

record history_dict =
  file_start_time :: "real option"
  file_save_time :: real
  file_data :: "data_point list option"
  file_version :: string
  file_settings :: "nat \<times> string \<times> real \<times> real"

text \<open>The history file: missing, unreadable (\<^verbatim>\<open>np.load\<close> raises), or holding a dictionary.\<close>

datatype history_file = Absent | Unreadable | Stored history_dict

record data_manager =
  history_data :: "data_point list"
  start_time :: real
  save_counter :: nat
  last_save_time :: real
  stats_cache :: "(string \<times> real) list"
  stats_cache_time :: real

text \<open>
  \<^verbatim>\<open>deque(maxlen=n).append(x)\<close>: a full deque discards its leftmost item to make room;
  with \<open>n = 0\<close> nothing is ever stored.
\<close>

definition deque_append :: "nat \<Rightarrow> 'a list \<Rightarrow> 'a \<Rightarrow> 'a list" where
  "deque_append maxlen xs x =
     (if maxlen = 0 then []
      else if maxlen \<le> length xs then drop (Suc (length xs) - maxlen) xs @ [x]
      else xs @ [x])"

text \<open>
  \<^verbatim>\<open>save_history\<close>. \<open>t_save\<close> and \<open>t_done\<close> are the two clock readings, \<open>io_ok\<close> tells
  whether \<^verbatim>\<open>np.save\<close> succeeds; a failed write is taken to leave the file as it was.
\<close>

definition save_history ::
  "data_manager \<Rightarrow> real \<Rightarrow> real \<Rightarrow> bool \<Rightarrow> history_file \<Rightarrow> bool \<times> data_manager \<times> history_file" where
  "save_history self t_save t_done io_ok file =
     (if length (history_data self) = 0 then (True, self, file)
      else
        (let history_dict =
               \<lparr>file_start_time = Some (start_time self),
                file_save_time = t_save,
                file_data = Some (history_data self),
                file_version = VERSION,
                file_settings = (HISTORY_SIZE, DEFAULT_DE_METHOD,
                                 WARNING_THRESHOLD_DE, CRITICAL_THRESHOLD_DE)\<rparr>
         in if io_ok then (True, self\<lparr>last_save_time := t_done\<rparr>, Stored history_dict)
            else (False, self, file)))"

text \<open>The loop of \<^verbatim>\<open>load_history\<close>: each loaded point is copied, rebased and appended.\<close>

fun load_points :: "real \<Rightarrow> data_point list \<Rightarrow> data_point list \<Rightarrow> data_point list" where
  "load_points time_offset hist [] = hist"
| "load_points time_offset hist (data_point # rest) =
     (let adjusted_point = data_point\<lparr>dp_time := dp_time data_point - time_offset\<rparr>
      in load_points time_offset (deque_append HISTORY_SIZE hist adjusted_point) rest)"

definition load_history :: "data_manager \<Rightarrow> history_file \<Rightarrow> bool \<times> data_manager" where
  "load_history self file =
     (case file of
        Absent \<Rightarrow> (False, self)
      | Unreadable \<Rightarrow> (False, self)
      | Stored history_dict \<Rightarrow>
          (case file_data history_dict of
             Some loaded_data \<Rightarrow>
               (let saved_start_time =
                      (case file_start_time history_dict of
                         Some t \<Rightarrow> t | None \<Rightarrow> start_time self);
                    time_offset = start_time self - saved_start_time
                in (True, self\<lparr>history_data :=
                                  load_points time_offset (history_data self) loaded_data\<rparr>))
           | None \<Rightarrow> (False, self)))"

text \<open>The constructor: an empty store started at \<open>now\<close>, then \<^verbatim>\<open>load_history\<close>.\<close>

definition empty_manager :: "real \<Rightarrow> data_manager" where
  "empty_manager now =
     \<lparr>history_data = [], start_time = now, save_counter = 0, last_save_time = now,
      stats_cache = [], stats_cache_time = 0\<rparr>"

definition AdvancedDataManager_init :: "real \<Rightarrow> history_file \<Rightarrow> data_manager" where
  "AdvancedDataManager_init now file = snd (load_history (empty_manager now) file)"

text \<open>
  \<^verbatim>\<open>add_data_point\<close>. The analysis result is \<^verbatim>\<open>None\<close> or a dictionary with the keys
  \<^verbatim>\<open>analyze_frame\<close> produces; the two keys read with \<^verbatim>\<open>.get\<close> may be missing.
\<close>

definition make_data_point :: "data_manager \<Rightarrow> analysis_result \<Rightarrow> data_point" where
  "make_data_point self r =
     (let relative_time = ar_timestamp r - start_time self in
      \<lparr>dp_time = relative_time,
       dp_absolute_time = ar_timestamp r,
       dp_de = cd_de (ar_color_diffs r),
       dp_de76 = cd_de76 (ar_color_diffs r),
       dp_de2000 = cd_de2000 (ar_color_diffs r),
       dp_dl = cd_dl (ar_color_diffs r),
       dp_da = cd_da (ar_color_diffs r),
       dp_db = cd_db (ar_color_diffs r),
       dp_dc = cd_dc (ar_color_diffs r),
       dp_dh = cd_dh (ar_color_diffs r),
       dp_lab = ar_lab r,
       dp_rgb = ar_rgb r,
       dp_calibrated = ar_calibrated r,
       dp_sample_size_cm =
         (case ar_sample_size_cm r of Some s \<Rightarrow> s | None \<Rightarrow> DEFAULT_SAMPLE_SIZE_CM),
       dp_de_method =
         (case ar_de_method r of Some m \<Rightarrow> m | None \<Rightarrow> DEFAULT_DE_METHOD)\<rparr>)"

definition add_data_point ::
  "data_manager \<Rightarrow> analysis_result option \<Rightarrow> real \<Rightarrow> real \<Rightarrow> bool \<Rightarrow> history_file
     \<Rightarrow> bool \<times> data_manager \<times> history_file" where
  "add_data_point self analysis_result t_save t_done io_ok file =
     (case analysis_result of
        None \<Rightarrow> (False, self, file)
      | Some r \<Rightarrow>
          (let data_point = make_data_point self r;
               self = self\<lparr>history_data :=
                             deque_append HISTORY_SIZE (history_data self) data_point\<rparr>;
               self = self\<lparr>save_counter := save_counter self + 1\<rparr>;
               (self, file) =
                 (if HISTORY_AUTO_SAVE_INTERVAL \<le> save_counter self
                  then (case save_history self t_save t_done io_ok file of
                          (_, self', file') \<Rightarrow> (self'\<lparr>save_counter := 0\<rparr>, file'))
                  else (self, file));
               self = self\<lparr>stats_cache_time := 0\<rparr>
           in (True, self, file)))"

text \<open>
  A sequence of appends, each with its own clock readings and write outcome:
  the driver for statements about every sequence of \<^verbatim>\<open>add_data_point\<close> calls.
\<close>

fun add_all ::
  "data_manager \<Rightarrow> history_file \<Rightarrow> (analysis_result \<times> real \<times> real \<times> bool) list
     \<Rightarrow> data_manager \<times> history_file" where
  "add_all self file [] = (self, file)"
| "add_all self file ((r, t_save, t_done, io_ok) # rest) =
     (case add_data_point self (Some r) t_save t_done io_ok file of
        (_, self', file') \<Rightarrow> add_all self' file' rest)"

section \<open>NumPy floats with their special values\<close>

text \<open>
  The arrays handed to the delta-E functions hold \<^verbatim>\<open>np.float64\<close> values. Besides the
  finite values (idealised as reals, see above) a float is \<open>+inf\<close>, \<open>-inf\<close> or \<open>nan\<close>.
  NumPy arithmetic follows IEEE 754 on them and never raises: an invalid operation gives
  \<open>nan\<close>, a division by zero gives an infinity or \<open>nan\<close>. The two zeros of IEEE 754
  are not told apart: zero counts as \<open>+0\<close>.
\<close>

datatype npfloat = Fin real | PInf | NInf | NaN

instantiation npfloat :: "{uminus, plus, minus, times, inverse, abs, ord}"
begin

fun uminus_npfloat :: "npfloat \<Rightarrow> npfloat" where
  "uminus_npfloat (Fin x) = Fin (- x)"
| "uminus_npfloat PInf = NInf"
| "uminus_npfloat NInf = PInf"
| "uminus_npfloat NaN = NaN"

fun plus_npfloat :: "npfloat \<Rightarrow> npfloat \<Rightarrow> npfloat" where
  "plus_npfloat (Fin x) (Fin y) = Fin (x + y)"
| "plus_npfloat NaN _ = NaN"
| "plus_npfloat _ NaN = NaN"
| "plus_npfloat PInf NInf = NaN"
| "plus_npfloat NInf PInf = NaN"
| "plus_npfloat PInf _ = PInf"
| "plus_npfloat _ PInf = PInf"
| "plus_npfloat NInf _ = NInf"
| "plus_npfloat _ NInf = NInf"

definition minus_npfloat :: "npfloat \<Rightarrow> npfloat \<Rightarrow> npfloat" where
  "minus_npfloat a b = a + (- b)"

fun times_npfloat :: "npfloat \<Rightarrow> npfloat \<Rightarrow> npfloat" where
  "times_npfloat (Fin x) (Fin y) = Fin (x * y)"
| "times_npfloat NaN _ = NaN"
| "times_npfloat _ NaN = NaN"
| "times_npfloat (Fin x) PInf = (if x = 0 then NaN else if 0 < x then PInf else NInf)"
| "times_npfloat (Fin x) NInf = (if x = 0 then NaN else if 0 < x then NInf else PInf)"
| "times_npfloat PInf (Fin y) = (if y = 0 then NaN else if 0 < y then PInf else NInf)"
| "times_npfloat NInf (Fin y) = (if y = 0 then NaN else if 0 < y then NInf else PInf)"
| "times_npfloat PInf PInf = PInf"
| "times_npfloat PInf NInf = NInf"
| "times_npfloat NInf PInf = NInf"
| "times_npfloat NInf NInf = PInf"

fun divide_npfloat :: "npfloat \<Rightarrow> npfloat \<Rightarrow> npfloat" where
  "divide_npfloat (Fin x) (Fin y) =
     (if y \<noteq> 0 then Fin (x / y)
      else if x = 0 then NaN else if 0 < x then PInf else NInf)"
| "divide_npfloat NaN _ = NaN"
| "divide_npfloat _ NaN = NaN"
| "divide_npfloat (Fin x) PInf = Fin 0"
| "divide_npfloat (Fin x) NInf = Fin 0"
| "divide_npfloat PInf (Fin y) = (if 0 \<le> y then PInf else NInf)"
| "divide_npfloat NInf (Fin y) = (if 0 \<le> y then NInf else PInf)"
| "divide_npfloat PInf PInf = NaN"
| "divide_npfloat PInf NInf = NaN"
| "divide_npfloat NInf PInf = NaN"
| "divide_npfloat NInf NInf = NaN"

fun inverse_npfloat :: "npfloat \<Rightarrow> npfloat" where
  "inverse_npfloat (Fin x) = (if x \<noteq> 0 then Fin (1 / x) else PInf)"
| "inverse_npfloat PInf = Fin 0"
| "inverse_npfloat NInf = Fin 0"
| "inverse_npfloat NaN = NaN"

fun abs_npfloat :: "npfloat \<Rightarrow> npfloat" where
  "abs_npfloat (Fin x) = Fin \<bar>x\<bar>"
| "abs_npfloat PInf = PInf"
| "abs_npfloat NInf = PInf"
| "abs_npfloat NaN = NaN"

text \<open>Every ordered comparison with \<open>nan\<close> is false.\<close>

fun less_npfloat :: "npfloat \<Rightarrow> npfloat \<Rightarrow> bool" where
  "less_npfloat (Fin x) (Fin y) = (x < y)"
| "less_npfloat NaN _ = False"
| "less_npfloat _ NaN = False"
| "less_npfloat _ NInf = False"
| "less_npfloat PInf _ = False"
| "less_npfloat NInf _ = True"
| "less_npfloat _ PInf = True"

fun less_eq_npfloat :: "npfloat \<Rightarrow> npfloat \<Rightarrow> bool" where
  "less_eq_npfloat (Fin x) (Fin y) = (x \<le> y)"
| "less_eq_npfloat NaN _ = False"
| "less_eq_npfloat _ NaN = False"
| "less_eq_npfloat NInf _ = True"
| "less_eq_npfloat _ PInf = True"
| "less_eq_npfloat _ NInf = False"
| "less_eq_npfloat PInf _ = False"

instance ..

end










section \<open>The delta-E functions on float arrays\<close>














section \<open>Auxiliary notions and example data\<close>

text \<open>The last \<open>n\<close> items of a list, in their order.\<close>

definition last_n :: "nat \<Rightarrow> 'a list \<Rightarrow> 'a list" where
  "last_n n xs = drop (length xs - n) xs"

text \<open>What \<^verbatim>\<open>load_history\<close> does to one loaded point.\<close>

definition rebase :: "real \<Rightarrow> data_point \<Rightarrow> data_point" where
  "rebase time_offset p = p\<lparr>dp_time := dp_time p - time_offset\<rparr>"





text \<open>Analysis results with pairwise different timestamps, and appends made of them.\<close>

definition sample_result :: "nat \<Rightarrow> analysis_result" where
  "sample_result i =
     \<lparr>ar_timestamp = real i,
      ar_color_diffs = \<lparr>cd_dl = 0, cd_da = 0, cd_db = 0, cd_dc = 0, cd_dh = 0,
                         cd_de76 = 1.5, cd_de2000 = 1.5, cd_de = 1.5\<rparr>,
      ar_lab = (50, 0, 0), ar_rgb = (119, 119, 119), ar_calibrated = False,
      ar_sample_size_cm = Some 1, ar_de_method = Some DE_METHOD_CIE76\<rparr>"

definition sample_inputs :: "nat \<Rightarrow> (analysis_result \<times> real \<times> real \<times> bool) list" where
  "sample_inputs n = map (\<lambda>i. (sample_result i, real i, real i, True)) [0..<n]"

definition full_manager :: data_manager where
  "full_manager =
     (empty_manager 0)\<lparr>history_data :=
        map (\<lambda>i. make_data_point (empty_manager 0) (sample_result i)) [0..<HISTORY_SIZE]\<rparr>"

text \<open>A snapshot left behind by an earlier session that started at time 0.\<close>

definition old_point :: data_point where
  "old_point = make_data_point (empty_manager 0) (sample_result 7)"

definition old_file :: history_file where
  "old_file =
     Stored \<lparr>file_start_time = Some 0, file_save_time = 8, file_data = Some [old_point],
             file_version = VERSION,
             file_settings = (HISTORY_SIZE, DEFAULT_DE_METHOD,
                              WARNING_THRESHOLD_DE, CRITICAL_THRESHOLD_DE)\<rparr>"

section \<open>Quality classification\<close>

lemmas grade_thresholds = QUALITY_GRADE_EXCELLENT_def QUALITY_GRADE_GOOD_def
  QUALITY_GRADE_ACCEPTABLE_def QUALITY_GRADE_DEFECTIVE_def

lemma get_quality_grade_chain:
  "get_quality_grade de =
     (if \<bar>de\<bar> \<le> 1 then ''excellent'' else if \<bar>de\<bar> \<le> 2 then ''good''
      else if \<bar>de\<bar> \<le> 3 then ''acceptable'' else if \<bar>de\<bar> \<le> 5 then ''defective''
      else ''out_of_range'')"
  by (simp add: get_quality_grade_def grade_thresholds Let_def)

text \<open>
  Claim C3. \<^verbatim>\<open>get_quality_grade\<close> is total on the reals and classifies the absolute
  value against the thresholds 1, 2, 3 and 5, a boundary value falling to the stricter
  grade: each grade is returned exactly on its interval, the result is always one of
  five different grades, and the six boundary values of the specification are graded
  as it says.
\<close>

theorem get_quality_grade_total:
  "(get_quality_grade de = ''excellent'' \<longleftrightarrow> \<bar>de\<bar> \<le> 1)
   \<and> (get_quality_grade de = ''good'' \<longleftrightarrow> 1 < \<bar>de\<bar> \<and> \<bar>de\<bar> \<le> 2)
   \<and> (get_quality_grade de = ''acceptable'' \<longleftrightarrow> 2 < \<bar>de\<bar> \<and> \<bar>de\<bar> \<le> 3)
   \<and> (get_quality_grade de = ''defective'' \<longleftrightarrow> 3 < \<bar>de\<bar> \<and> \<bar>de\<bar> \<le> 5)
   \<and> (get_quality_grade de = ''out_of_range'' \<longleftrightarrow> 5 < \<bar>de\<bar>)
   \<and> get_quality_grade de
         \<in> {''excellent'', ''good'', ''acceptable'', ''defective'', ''out_of_range''}
   \<and> distinct [''excellent'', ''good'', ''acceptable'', ''defective'', ''out_of_range'']
   \<and> get_quality_grade 1 = ''excellent''
   \<and> get_quality_grade (10001 / 10000) = ''good''
   \<and> get_quality_grade 3 = ''acceptable''
   \<and> get_quality_grade (30001 / 10000) = ''defective''
   \<and> get_quality_grade 5 = ''defective''
   \<and> get_quality_grade (50001 / 10000) = ''out_of_range''"
  unfolding get_quality_grade_chain by simp

theorem get_quality_grade_total_witness:
  "get_quality_grade (- 2) = ''good'' \<and> get_quality_grade (- (7 / 2)) = ''defective''"
  using get_quality_grade_total [of "- 2"] get_quality_grade_total [of "- (7 / 2)"]
  by simp

section \<open>The sample size\<close>

text \<open>
  Claim C7. \<^verbatim>\<open>set_sample_size\<close> returns false and leaves the whole analyzer as it was
  for every argument outside \<open>[0.1, 5.0]\<close>, 0.05 and 6.0 among them; for every argument
  inside, 2.5 among them, it returns true and the analyzer differs from the old one in
  the stored sample size only, which is the argument.
\<close>

theorem set_sample_size_bounds:
  "(size_cm < 0.1 \<or> 5 < size_cm \<longrightarrow> set_sample_size self size_cm = (False, self))
   \<and> (0.1 \<le> size_cm \<and> size_cm \<le> 5 \<longrightarrow>
        set_sample_size self size_cm = (True, self\<lparr>sample_size_cm := size_cm\<rparr>))
   \<and> set_sample_size self 0.05 = (False, self)
   \<and> set_sample_size self 6 = (False, self)
   \<and> set_sample_size self 2.5 = (True, self\<lparr>sample_size_cm := 2.5\<rparr>)"
  by (simp add: set_sample_size_def MIN_SAMPLE_SIZE_CM_def MAX_SAMPLE_SIZE_CM_def)

theorem set_sample_size_bounds_witness:
  "((0.05 :: real) < 0.1 \<or> (5 :: real) < 0.05)
   \<and> set_sample_size AdvancedColorAnalyzer_init 0.05 = (False, AdvancedColorAnalyzer_init)
   \<and> (0.1 :: real) \<le> 0.1 \<and> (0.1 :: real) \<le> 5
   \<and> sample_size_cm (snd (set_sample_size AdvancedColorAnalyzer_init 0.1)) = 0.1
   \<and> fst (set_sample_size AdvancedColorAnalyzer_init 0.1)"
  using set_sample_size_bounds [of "0.05" AdvancedColorAnalyzer_init]
        set_sample_size_bounds [of "0.1" AdvancedColorAnalyzer_init]
  by simp

section \<open>The history store\<close>

lemma deque_append_last_n:
  "deque_append n xs x = last_n n (xs @ [x])"
  by (auto simp: deque_append_def last_n_def Suc_diff_le)

lemma last_n_append:
  "last_n n (last_n n xs @ ys) = last_n n (xs @ ys)"
proof (cases "length xs \<le> n")
  case True
  then show ?thesis by (simp add: last_n_def)
next
  case False
  then have "length ys + length xs - n = length ys + (length xs - n)" by simp
  with False show ?thesis
    by (simp add: last_n_def add.commute)
qed

lemma last_n_id: "length xs \<le> n \<Longrightarrow> last_n n xs = xs"
  by (simp add: last_n_def)

lemma length_last_n: "length (last_n n xs) = min n (length xs)"
  by (simp add: last_n_def)

lemma save_history_fields:
  "save_history s ts td io f = (ok, s', f') \<Longrightarrow>
     history_data s' = history_data s \<and> start_time s' = start_time s
     \<and> save_counter s' = save_counter s
     \<and> stats_cache s' = stats_cache s \<and> stats_cache_time s' = stats_cache_time s"
  by (auto simp: save_history_def Let_def split: if_splits)

lemma add_data_point_Some:
  "add_data_point s (Some r) ts td io f = (ok, s', f') \<Longrightarrow>
     ok \<and> history_data s' = deque_append HISTORY_SIZE (history_data s) (make_data_point s r)
     \<and> start_time s' = start_time s"
  by (auto simp: add_data_point_def Let_def split: if_splits prod.splits
           dest!: save_history_fields)

lemma add_all_history:
  "history_data (fst (add_all s f rs)) =
     last_n HISTORY_SIZE (history_data s @ map (\<lambda>e. make_data_point s (fst e)) rs)"
  if "length (history_data s) \<le> HISTORY_SIZE"
  using that
proof (induction rs arbitrary: s f)
  case Nil
  then show ?case by (simp add: last_n_id)
next
  case (Cons e rs)
  obtain r ts td io where e: "e = (r, ts, td, io)" by (cases e) auto
  obtain ok s' f' where step: "add_data_point s (Some r) ts td io f = (ok, s', f')"
    by (cases "add_data_point s (Some r) ts td io f") auto
  note st = add_data_point_Some[OF step]
  have len: "length (history_data s') \<le> HISTORY_SIZE"
    using st by (simp add: deque_append_last_n length_last_n)
  have mk: "make_data_point s' = make_data_point s"
    using st by (intro ext) (simp add: make_data_point_def)
  have hist: "history_data s' = last_n HISTORY_SIZE (history_data s @ [make_data_point s r])"
    using st by (simp add: deque_append_last_n)
  have "add_all s f (e # rs) = add_all s' f' rs"
    by (simp add: e step)
  moreover have
    "last_n HISTORY_SIZE (history_data s' @ map (\<lambda>e. make_data_point s (fst e)) rs)
       = last_n HISTORY_SIZE (history_data s @ map (\<lambda>e. make_data_point s (fst e)) (e # rs))"
    by (simp only: hist last_n_append e list.map fst_conv append_Cons append_Nil append_assoc)
  ultimately show ?case
    using Cons.IH[OF len, of f'] by (simp only: mk)
qed

lemma load_points_last_n:
  "load_points off hist pts = last_n HISTORY_SIZE (hist @ map (rebase off) pts)"
  if "length hist \<le> HISTORY_SIZE"
  using that
proof (induction pts arbitrary: hist)
  case Nil
  then show ?case by (simp add: last_n_id)
next
  case (Cons p pts)
  have len: "length (deque_append HISTORY_SIZE hist (rebase off p)) \<le> HISTORY_SIZE"
    by (simp add: deque_append_last_n length_last_n)
  from Cons.IH[OF len] show ?case
    by (simp add: Let_def deque_append_last_n last_n_append rebase_def)
qed

text \<open>
  Claim C5. The store has the fixed capacity \<open>HISTORY_SIZE = 1000\<close> and evicts first in,
  first out. After any sequence of appends to a store within capacity, the history is
  the last \<open>HISTORY_SIZE\<close> of all entries in insertion order, so the count never exceeds
  the capacity; an append to a full store drops exactly the oldest entry and puts the
  new one last; and \<open>HISTORY_SIZE + 1\<close> appends to an empty store leave exactly
  \<open>HISTORY_SIZE\<close> entries, all but the first in their order, the newest last and,
  the entries being distinct, the first one gone.
\<close>

theorem history_store_fifo:
  assumes "length (history_data s) \<le> HISTORY_SIZE"
  shows "HISTORY_SIZE = 1000
    \<and> history_data (fst (add_all s f rs)) =
        last_n HISTORY_SIZE (history_data s @ map (\<lambda>e. make_data_point s (fst e)) rs)
    \<and> length (history_data (fst (add_all s f rs))) \<le> HISTORY_SIZE
    \<and> (length (history_data s) = HISTORY_SIZE \<longrightarrow>
         history_data (fst (snd (add_data_point s (Some r) ts td io f))) =
           tl (history_data s) @ [make_data_point s r])
    \<and> (history_data s = [] \<and> length rs = Suc HISTORY_SIZE \<longrightarrow>
         history_data (fst (add_all s f rs)) = tl (map (\<lambda>e. make_data_point s (fst e)) rs)
         \<and> length (history_data (fst (add_all s f rs))) = HISTORY_SIZE
         \<and> last (history_data (fst (add_all s f rs))) = make_data_point s (fst (last rs))
         \<and> (distinct (map (\<lambda>e. make_data_point s (fst e)) rs) \<longrightarrow>
              make_data_point s (fst (hd rs)) \<notin> set (history_data (fst (add_all s f rs)))))"
proof -
  let ?mk = "\<lambda>e. make_data_point s (fst e)"
  have all: "history_data (fst (add_all s f rs)) =
               last_n HISTORY_SIZE (history_data s @ map ?mk rs)"
    using assms by (rule add_all_history)
  have len: "length (history_data (fst (add_all s f rs))) \<le> HISTORY_SIZE"
    unfolding all by (simp add: length_last_n)
  have full: "history_data (fst (snd (add_data_point s (Some r) ts td io f))) =
                tl (history_data s) @ [make_data_point s r]"
    if "length (history_data s) = HISTORY_SIZE"
  proof -
    obtain ok s' f' where step: "add_data_point s (Some r) ts td io f = (ok, s', f')"
      by (cases "add_data_point s (Some r) ts td io f") auto
    have "history_data s \<noteq> []" using that by (auto simp: HISTORY_SIZE_def)
    moreover have "Suc 0 - HISTORY_SIZE = 0" by (simp add: HISTORY_SIZE_def)
    ultimately show ?thesis
      using add_data_point_Some[OF step] that
      by (simp add: step deque_append_last_n last_n_def drop_Suc tl_append2)
  qed
  have over: "history_data (fst (add_all s f rs)) = tl (map ?mk rs)
         \<and> length (history_data (fst (add_all s f rs))) = HISTORY_SIZE
         \<and> last (history_data (fst (add_all s f rs))) = make_data_point s (fst (last rs))
         \<and> (distinct (map ?mk rs) \<longrightarrow>
              ?mk (hd rs) \<notin> set (history_data (fst (add_all s f rs))))"
    if e: "history_data s = []" and n: "length rs = Suc HISTORY_SIZE"
  proof -
    obtain x xs where rs: "rs = x # xs" using n by (cases rs) auto
    have h: "history_data (fst (add_all s f rs)) = map ?mk xs"
      unfolding all using e n by (simp add: last_n_def rs)
    have "xs \<noteq> []" using n rs by (auto simp: HISTORY_SIZE_def)
    then show ?thesis
      unfolding h using n rs by (auto simp: last_map)
  qed
  have cap: "HISTORY_SIZE = 1000" by (simp add: HISTORY_SIZE_def)
  from cap all len full over show ?thesis by blast
qed

lemma sample_inputs_Suc:
  "sample_inputs (Suc n) = (sample_result 0, 0, 0, True) # map (\<lambda>i. (sample_result i, real i, real i, True)) [Suc 0..<Suc n]"
  by (simp add: sample_inputs_def upt_rec[of 0] del: upt_Suc)

lemma sample_points_distinct:
  "distinct (map (\<lambda>e. make_data_point s (fst e)) (sample_inputs n))"
  by (simp add: sample_inputs_def distinct_map comp_def inj_on_def make_data_point_def sample_result_def)

lemma last_sample_inputs: "fst (last (sample_inputs (Suc n))) = sample_result n"
  by (simp add: sample_inputs_def)

theorem history_store_fifo_witness:
  "length (history_data (empty_manager 0)) \<le> HISTORY_SIZE
   \<and> history_data (empty_manager 0) = []
   \<and> length (sample_inputs (Suc HISTORY_SIZE)) = Suc HISTORY_SIZE
   \<and> distinct (map (\<lambda>e. make_data_point (empty_manager 0) (fst e)) (sample_inputs (Suc HISTORY_SIZE)))
   \<and> length (history_data (fst (add_all (empty_manager 0) Absent (sample_inputs (Suc HISTORY_SIZE))))) = HISTORY_SIZE
   \<and> last (history_data (fst (add_all (empty_manager 0) Absent (sample_inputs (Suc HISTORY_SIZE)))))
       = make_data_point (empty_manager 0) (sample_result HISTORY_SIZE)
   \<and> make_data_point (empty_manager 0) (sample_result 0)
       \<notin> set (history_data (fst (add_all (empty_manager 0) Absent (sample_inputs (Suc HISTORY_SIZE)))))
   \<and> length (history_data full_manager) = HISTORY_SIZE
   \<and> history_data (fst (snd (add_data_point full_manager (Some (sample_result HISTORY_SIZE)) 0 0 True Absent)))
       = tl (history_data full_manager) @ [make_data_point full_manager (sample_result HISTORY_SIZE)]"
proof -
  let ?s = "empty_manager 0" and ?rs = "sample_inputs (Suc HISTORY_SIZE)"
  have e: "history_data ?s = []" by (simp add: empty_manager_def)
  then have le: "length (history_data ?s) \<le> HISTORY_SIZE" by simp
  have n: "length ?rs = Suc HISTORY_SIZE"
    by (simp add: sample_inputs_def)
  have f: "length (history_data full_manager) = HISTORY_SIZE"
    by (simp add: full_manager_def)
  then have lf: "length (history_data full_manager) \<le> HISTORY_SIZE" by simp
  have hd0: "fst (hd ?rs) = sample_result 0"
    by (simp add: sample_inputs_Suc del: upt_Suc)
  note d = sample_points_distinct[of ?s "Suc HISTORY_SIZE"]
  note l = last_sample_inputs[of HISTORY_SIZE]
  note t1 = history_store_fifo[OF le, of Absent ?rs]
  note t2 = history_store_fifo[OF lf, of Absent "[]" "sample_result HISTORY_SIZE" 0 0 True]
  from t1 t2 e le n f d show ?thesis
    unfolding hd0 l by blast
qed

text \<open>
  Claim C9. \<^verbatim>\<open>add_data_point\<close> called with \<^verbatim>\<open>None\<close> returns false; the store (history,
  save counter, statistics cache and all other fields) and the history file are exactly
  what they were.
\<close>

theorem add_data_point_None:
  "add_data_point self None t_save t_done io_ok file = (False, self, file)"
  by (simp add: add_data_point_def)

section \<open>Persistence of the history\<close>

lemma save_history_nonempty:
  "history_data s \<noteq> [] \<Longrightarrow>
   save_history s ts td True f =
     (True, s\<lparr>last_save_time := td\<rparr>,
      Stored \<lparr>file_start_time = Some (start_time s), file_save_time = ts,
              file_data = Some (history_data s), file_version = VERSION,
              file_settings = (HISTORY_SIZE, DEFAULT_DE_METHOD,
                               WARNING_THRESHOLD_DE, CRITICAL_THRESHOLD_DE)\<rparr>)"
  by (simp add: save_history_def)

lemma save_history_empty:
  "history_data s = [] \<Longrightarrow> save_history s ts td io f = (True, s, f)"
  by (simp add: save_history_def)

lemma load_history_stored:
  "file_data d = Some pts \<Longrightarrow> file_start_time d = Some t0 \<Longrightarrow>
   history_data fresh = [] \<Longrightarrow> length pts \<le> HISTORY_SIZE \<Longrightarrow>
   load_history fresh (Stored d) =
     (True, fresh\<lparr>history_data := map (rebase (start_time fresh - t0)) pts\<rparr>)"
  by (simp add: load_history_def load_points_last_n last_n_id)

text \<open>
  Claim C6, amended. Saving a non-empty history with a successful write and then loading
  it into a fresh store, one whose history is empty, reproduces the same number of
  entries with the same delta-E values (selected, CIE76 and CIEDE2000) in the same order;
  each entry's \<^verbatim>\<open>time\<close> is lowered by the difference between the loading session's
  start time and the start time recorded in the snapshot. The constructor, which loads
  on its own, gives the same history.
\<close>

theorem save_load_roundtrip:
  assumes "history_data s \<noteq> []" and "length (history_data s) \<le> HISTORY_SIZE"
    and "history_data fresh = []"
  shows "fst (save_history s t_save t_done True disk)
    \<and> load_history fresh (snd (snd (save_history s t_save t_done True disk))) =
        (True, fresh\<lparr>history_data :=
                        map (rebase (start_time fresh - start_time s)) (history_data s)\<rparr>)
    \<and> length (history_data (snd (load_history fresh
          (snd (snd (save_history s t_save t_done True disk)))))) = length (history_data s)
    \<and> map dp_de (history_data (snd (load_history fresh
          (snd (snd (save_history s t_save t_done True disk)))))) = map dp_de (history_data s)
    \<and> map dp_de76 (history_data (snd (load_history fresh
          (snd (snd (save_history s t_save t_done True disk)))))) = map dp_de76 (history_data s)
    \<and> map dp_de2000 (history_data (snd (load_history fresh
          (snd (snd (save_history s t_save t_done True disk)))))) = map dp_de2000 (history_data s)
    \<and> map dp_time (history_data (snd (load_history fresh
          (snd (snd (save_history s t_save t_done True disk)))))) =
        map (\<lambda>p. dp_time p - (start_time fresh - start_time s)) (history_data s)
    \<and> history_data (AdvancedDataManager_init now
          (snd (snd (save_history s t_save t_done True disk)))) =
        map (rebase (now - start_time s)) (history_data s)"
proof -
  have e: "history_data (empty_manager now) = []" "start_time (empty_manager now) = now"
    by (simp_all add: empty_manager_def)
  show ?thesis
    using assms e
    by (simp add: save_history_nonempty load_history_stored AdvancedDataManager_init_def
          rebase_def comp_def)
qed

theorem save_load_roundtrip_witness:
  "history_data full_manager \<noteq> [] \<and> length (history_data full_manager) \<le> HISTORY_SIZE
   \<and> history_data (empty_manager 2000) = []
   \<and> length (history_data full_manager) = HISTORY_SIZE
   \<and> length (history_data (snd (load_history (empty_manager 2000)
        (snd (snd (save_history full_manager 1500 1501 True Absent))))))
       = length (history_data full_manager)
   \<and> map dp_de (history_data (snd (load_history (empty_manager 2000)
        (snd (snd (save_history full_manager 1500 1501 True Absent))))))
       = map dp_de (history_data full_manager)"
proof -
  have n: "history_data full_manager \<noteq> []"
    by (simp add: full_manager_def HISTORY_SIZE_def)
  have l: "length (history_data full_manager) = HISTORY_SIZE"
    by (simp add: full_manager_def)
  then have le: "length (history_data full_manager) \<le> HISTORY_SIZE" by simp
  have e: "history_data (empty_manager 2000) = []"
    by (simp add: empty_manager_def)
  from save_load_roundtrip[OF n le e, where t_save = 1500 and t_done = 1501
         and disk = Absent and now = 0] l le n e
  show ?thesis by blast
qed

text \<open>
  The claim as stated fails for an empty history: \<^verbatim>\<open>save_history\<close> returns true
  without writing, and a fresh store then loads the one entry of the snapshot an earlier
  session left, while the saved store had none.
\<close>

theorem save_load_empty_counterexample:
  "fst (save_history (empty_manager 9) 10 10 True old_file)
   \<and> length (history_data (snd (load_history (empty_manager 20)
        (snd (snd (save_history (empty_manager 9) 10 10 True old_file))))))
      \<noteq> length (history_data (empty_manager 9))"
  by (simp add: save_history_def empty_manager_def old_file_def load_history_def
        deque_append_def HISTORY_SIZE_def)

text \<open>
  Claim C10. \<^verbatim>\<open>save_history\<close> on a store with no entries returns true and leaves the
  store and the history file as they were, whatever the write would have done; a
  following load therefore sees the earlier file, and when that file holds the points
  of an earlier session a fresh store gets those points, rebased, and not the empty
  history.
\<close>

theorem save_history_empty_keeps_file:
  assumes "history_data s = []"
  shows "save_history s t_save t_done io_ok disk = (True, s, disk)
    \<and> load_history fresh (snd (snd (save_history s t_save t_done io_ok disk))) =
        load_history fresh disk
    \<and> (disk = Stored d \<and> file_data d = Some pts \<and> file_start_time d = Some t0
        \<and> history_data fresh = [] \<and> length pts \<le> HISTORY_SIZE \<longrightarrow>
        load_history fresh (snd (snd (save_history s t_save t_done io_ok disk))) =
          (True, fresh\<lparr>history_data := map (rebase (start_time fresh - t0)) pts\<rparr>))"
  using assms by (simp add: save_history_empty load_history_stored)

theorem save_history_empty_keeps_file_witness:
  "history_data (empty_manager 9) = []
   \<and> save_history (empty_manager 9) 10 10 True old_file = (True, empty_manager 9, old_file)
   \<and> history_data (snd (load_history (empty_manager 20)
        (snd (snd (save_history (empty_manager 9) 10 10 True old_file)))))
       = [rebase 20 old_point]"
proof -
  let ?d = "\<lparr>file_start_time = Some 0, file_save_time = 8, file_data = Some [old_point],
             file_version = VERSION,
             file_settings = (HISTORY_SIZE, DEFAULT_DE_METHOD,
                              WARNING_THRESHOLD_DE, CRITICAL_THRESHOLD_DE)\<rparr>"
  have e: "history_data (empty_manager 9) = []"
    by (simp add: empty_manager_def)
  have h: "old_file = Stored ?d \<and> file_data ?d = Some [old_point]
      \<and> file_start_time ?d = Some 0
      \<and> history_data (empty_manager 20) = [] \<and> length [old_point] \<le> HISTORY_SIZE"
    by (simp add: old_file_def empty_manager_def HISTORY_SIZE_def)
  note t = save_history_empty_keeps_file[OF e, where t_save = 10 and t_done = 10
         and io_ok = True and disk = old_file and fresh = "empty_manager 20"
         and d = ?d and pts = "[old_point]" and ?t0.0 = 0]
  from t h have l: "load_history (empty_manager 20)
        (snd (snd (save_history (empty_manager 9) 10 10 True old_file))) =
      (True, (empty_manager 20)\<lparr>history_data :=
               map (rebase (start_time (empty_manager 20) - 0)) [old_point]\<rparr>)"
    by blast
  have "history_data (snd (load_history (empty_manager 20)
        (snd (snd (save_history (empty_manager 9) 10 10 True old_file)))))
       = [rebase 20 old_point]"
    unfolding l by (simp add: empty_manager_def)
  with t e show ?thesis by blast
qed

section \<open>The sampling rectangle\<close>











section \<open>Finite floats: the array functions agree with the real-valued ones\<close>



lemma Fin_divide: "y \<noteq> 0 \<Longrightarrow> Fin x / Fin y = Fin (x / y)"
  by simp























section \<open>Identity and symmetry of the delta-E functions\<close>












section \<open>The difference bundle\<close>













section \<open>Exceptions and non-finite values in the CIEDE2000 computation\<close>


















end
